theory Spec2Isabelle
  imports Main
begin

section \<open>Configuration\<close>

text \<open>The hard-coded credentials of \<^verbatim>\<open>src/index.ts\<close> (lines 17 to 21).\<close>

definition VALID_API_KEY :: string where
  "VALID_API_KEY = ''mcp-secret-key-12345''"

definition JWT_SECRET :: string where
  "JWT_SECRET = ''mcp-jwt-secret-key-do-not-use-in-production''"

definition OAUTH_CLIENT_ID :: string where
  "OAUTH_CLIENT_ID = ''mcp-client''"

definition OAUTH_CLIENT_SECRET :: string where
  "OAUTH_CLIENT_SECRET = ''mcp-client-secret''"

section \<open>JavaScript values of a parsed JSON body\<close>

text \<open>
  The handlers read fields of \<^verbatim>\<open>req.body\<close>, an object produced by
  \<^verbatim>\<open>express.json()\<close>. An object is a map from field names to values; a field
  that is absent reads as \<^verbatim>\<open>undefined\<close>, here \<open>None\<close>. \<open>JNum\<close> carries an
  integer: a fractional JSON number behaves as a non-zero number in every test made
  below. \<open>JObj\<close> stands for any nested object or array, whose contents no handler reads.
\<close>

datatype jsval = JNull | JBool bool | JNum int | JStr string | JObj

type_synonym json_object = "string \<rightharpoonup> jsval"

text \<open>JavaScript truthiness, as used by \<^verbatim>\<open>if (!token)\<close>.\<close>

fun truthy :: "jsval option \<Rightarrow> bool" where
  "truthy None = False"
| "truthy (Some JNull) = False"
| "truthy (Some (JBool b)) = b"
| "truthy (Some (JNum n)) = (n \<noteq> 0)"
| "truthy (Some (JStr s)) = (s \<noteq> [])"
| "truthy (Some JObj) = True"

text \<open>Truthiness of a value typed \<^verbatim>\<open>string | undefined\<close>.\<close>

fun truthy_str :: "string option \<Rightarrow> bool" where
  "truthy_str None = False"
| "truthy_str (Some s) = (s \<noteq> [])"

section \<open>The JSON Web Token library\<close>

text \<open>
  \<^verbatim>\<open>jwt.sign\<close> and \<^verbatim>\<open>jwt.verify\<close> belong to the package jsonwebtoken, which is
  not part of the repository. They are modelled at the level of the compact
  serialisation: a token is three segments separated by dots, the third being the
  base64url text of a keyed tag over the first two.

  \<^item> The keyed tag function (HMAC-SHA256 in the package) is a parameter \<open>mac\<close> of
    every definition below: key, then message, giving the tag bytes. Nothing is
    assumed of it.
  \<^item> The base64url encoder of the tag is the real one.
  \<^item> The header segment is the constant that the package emits for HS256.
  \<^item> The payload segment, in the package the base64url text of a JSON object, is
    rendered here as the four claims separated by commas, with the two timestamps in
    decimal. Only the claims that \<^verbatim>\<open>index.ts\<close> signs exist: \<open>client_id\<close>,
    \<open>scope\<close>, \<open>iat\<close> and \<open>exp\<close>.

  Left out, as \<^verbatim>\<open>index.ts\<close> never produces them: tokens under another HMAC
  algorithm of the package, payloads without \<open>exp\<close>, and the \<open>nbf\<close> claim.
\<close>

type_synonym mac = "string \<Rightarrow> string \<Rightarrow> string"

record payload =
  client_id :: string
  scope :: string
  iat :: nat

record claims = payload +
  exp :: nat

subsection \<open>String helpers\<close>

text \<open>\<^verbatim>\<open>String.prototype.split\<close> with a separator of one character.\<close>

fun split_on :: "char \<Rightarrow> string \<Rightarrow> string list" where
  "split_on c [] = [[]]"
| "split_on c (x # xs) =
     (if x = c then [] # split_on c xs
      else (case split_on c xs of
              w # ws \<Rightarrow> (x # w) # ws
            | [] \<Rightarrow> [[x]]))"

definition digit_char :: "nat \<Rightarrow> char" where
  "digit_char d = char_of (48 + d)"

fun show_nat :: "nat \<Rightarrow> string" where
  "show_nat n =
     (if n < 10 then [digit_char n]
      else show_nat (n div 10) @ [digit_char (n mod 10)])"

declare show_nat.simps [simp del]

definition is_digit :: "char \<Rightarrow> bool" where
  "is_digit c = (48 \<le> (of_char c :: nat) \<and> (of_char c :: nat) \<le> 57)"

fun read_digits :: "nat \<Rightarrow> string \<Rightarrow> nat option" where
  "read_digits acc [] = Some acc"
| "read_digits acc (c # cs) =
     (if is_digit c then read_digits (10 * acc + (of_char c - 48)) cs else None)"

definition read_nat :: "string \<Rightarrow> nat option" where
  "read_nat s = (if s = [] then None else read_digits 0 s)"

subsection \<open>base64url\<close>

definition b64_alphabet :: string where
  "b64_alphabet =
     ''ABCDEFGHIJKLMNOPQRSTUVWXYZabcdefghijklmnopqrstuvwxyz0123456789-_''"

text \<open>Three bytes become four values of six bits; the padding is dropped.\<close>

fun b64_sextets :: "nat list \<Rightarrow> nat list" where
  "b64_sextets (a # b # c # rest) =
     [a div 4, (a mod 4) * 16 + b div 16, (b mod 16) * 4 + c div 64, c mod 64]
       @ b64_sextets rest"
| "b64_sextets [a, b] = [a div 4, (a mod 4) * 16 + b div 16, (b mod 16) * 4]"
| "b64_sextets [a] = [a div 4, (a mod 4) * 16]"
| "b64_sextets [] = []"

definition base64url :: "string \<Rightarrow> string" where
  "base64url s = map (\<lambda>n. b64_alphabet ! n) (b64_sextets (map of_char s))"

subsection \<open>Signing and verifying\<close>

definition jwt_header :: string where
  "jwt_header = ''eyJhbGciOiJIUzI1NiIsInR5cCI6IkpXVCJ9''"

definition encode_payload :: "claims \<Rightarrow> string" where
  "encode_payload c =
     client_id c @ '','' @ scope c @ '','' @ show_nat (iat c) @ '','' @ show_nat (exp c)"

definition decode_payload :: "string \<Rightarrow> claims option" where
  "decode_payload s =
     (case split_on CHR '','' s of
        [a, b, i, e] \<Rightarrow>
          (case (read_nat i, read_nat e) of
             (Some i', Some e') \<Rightarrow>
               Some \<lparr>client_id = a, scope = b, iat = i', exp = e'\<rparr>
           | _ \<Rightarrow> None)
      | _ \<Rightarrow> None)"

definition signature_segment :: "mac \<Rightarrow> string \<Rightarrow> string \<Rightarrow> string" where
  "signature_segment mac secret signing_input = base64url (mac secret signing_input)"

text \<open>
  \<^verbatim>\<open>jwt.sign(payload, secret, {expiresIn})\<close>, with \<open>expiresIn\<close> in seconds
  (\<^verbatim>\<open>"1h"\<close> is 3600). The package takes \<^verbatim>\<open>payload.iat || Math.floor(Date.now() / 1000)\<close>
  as the timestamp, writes it to \<open>iat\<close>, and sets \<open>exp\<close> to the timestamp plus
  \<open>expiresIn\<close>.
\<close>

definition jwt_sign :: "mac \<Rightarrow> nat \<Rightarrow> payload \<Rightarrow> string \<Rightarrow> nat \<Rightarrow> string" where
  "jwt_sign mac now_ms p secret expiresIn =
     (let timestamp = (if iat p \<noteq> 0 then iat p else now_ms div 1000);
          c = \<lparr>client_id = client_id p, scope = scope p, iat = timestamp,
               exp = timestamp + expiresIn\<rparr>;
          signing_input = jwt_header @ ''.'' @ encode_payload c
      in signing_input @ ''.'' @ signature_segment mac secret signing_input)"

datatype jwt_error = JsonWebTokenError string | TokenExpiredError

text \<open>
  \<^verbatim>\<open>jwt.verify(token, secret)\<close> at the clock \<open>now_ms\<close> (milliseconds, as
  \<^verbatim>\<open>Date.now()\<close>). The package compares \<^verbatim>\<open>clockTimestamp >= payload.exp\<close>, with
  \<^verbatim>\<open>clockTimestamp = Math.floor(Date.now() / 1000)\<close>, so a token is expired from the
  second \<open>exp\<close> on.
\<close>

definition jwt_verify :: "mac \<Rightarrow> nat \<Rightarrow> string \<Rightarrow> string \<Rightarrow> jwt_error + claims" where
  "jwt_verify mac now_ms token secret =
     (if token = [] then Inl (JsonWebTokenError ''jwt must be provided'')
      else
        (case split_on CHR ''.'' token of
           [h, p, s] \<Rightarrow>
             (case decode_payload p of
                None \<Rightarrow> Inl (JsonWebTokenError ''invalid token'')
              | Some c \<Rightarrow>
                  if h \<noteq> jwt_header then Inl (JsonWebTokenError ''invalid algorithm'')
                  else if s \<noteq> signature_segment mac secret (h @ ''.'' @ p)
                    then Inl (JsonWebTokenError ''invalid signature'')
                  else if exp c \<le> now_ms div 1000 then Inl TokenExpiredError
                  else Inr c)
         | _ \<Rightarrow> Inl (JsonWebTokenError ''jwt malformed'')))"

section \<open>The authentication layer of index.ts\<close>

subsection \<open>validateAuth\<close>

datatype AuthType = apikey | oauth2

text \<open>\<^verbatim>\<open>McpError(code, message)\<close>; \<^verbatim>\<open>ErrorCode.InvalidRequest\<close> is -32600.\<close>

datatype McpError = McpError int string

definition InvalidRequest :: int where
  "InvalidRequest = - 32600"

text \<open>What the \<^verbatim>\<open>try\<close> block of \<open>validateAuth\<close> can throw.\<close>

datatype thrown = JwtThrown jwt_error | ErrorThrown string

text \<open>
  The body of the \<^verbatim>\<open>try\<close> block (lines 46 to 53): verify, then look the token
  up in \<open>validTokens\<close>, and throw when it is not there.
\<close>

definition validateAuth_try :: "mac \<Rightarrow> string set \<Rightarrow> nat \<Rightarrow> string \<Rightarrow> thrown + AuthType" where
  "validateAuth_try mac validTokens now_ms bearerToken =
     (case jwt_verify mac now_ms bearerToken JWT_SECRET of
        Inl e \<Rightarrow> Inl (JwtThrown e)
      | Inr decoded \<Rightarrow>
          if bearerToken \<in> validTokens then Inr oauth2
          else Inl (ErrorThrown ''Token not in valid set''))"

text \<open>
  \<open>validateAuth\<close> (lines 37 to 66). The set \<open>validTokens\<close> and the clock are
  ambient in the source and explicit here. The \<^verbatim>\<open>catch\<close> clause replaces whatever
  was thrown by one error.
\<close>

definition validateAuth ::
  "mac \<Rightarrow> string set \<Rightarrow> nat \<Rightarrow> string option \<Rightarrow> string option \<Rightarrow> McpError + AuthType" where
  "validateAuth mac validTokens now_ms apiKey bearerToken =
     (if truthy_str apiKey \<and> apiKey = Some VALID_API_KEY then Inr apikey
      else
        (case bearerToken of
           Some tok \<Rightarrow>
             if tok \<noteq> [] then
               (case validateAuth_try mac validTokens now_ms tok of
                  Inr a \<Rightarrow> Inr a
                | Inl error \<Rightarrow>
                    Inl (McpError InvalidRequest ''Invalid or expired OAuth2 token''))
             else
               Inl (McpError InvalidRequest
                 ''Authentication required. Provide either 'x-api-key' header or 'Authorization: Bearer' token.'')
         | None \<Rightarrow>
             Inl (McpError InvalidRequest
               ''Authentication required. Provide either 'x-api-key' header or 'Authorization: Bearer' token.'')))"

subsection \<open>Credentials from the request\<close>

text \<open>
  The metadata object \<^verbatim>\<open>_meta\<close> as a map from field names to strings (the source
  casts both fields to \<^verbatim>\<open>string | undefined\<close>).
\<close>

type_synonym meta = "string \<rightharpoonup> string"

definition getCredentialsFromMeta :: "meta option \<Rightarrow> string option \<times> string option" where
  "getCredentialsFromMeta m =
     (case m of
        None \<Rightarrow> (None, None)
      | Some meta \<Rightarrow> (meta ''apiKey'', meta ''bearerToken''))"

text \<open>\<^verbatim>\<open>s.startsWith(p)\<close> and \<^verbatim>\<open>s.substring(n)\<close>.\<close>

definition startsWith :: "string \<Rightarrow> string \<Rightarrow> bool" where
  "startsWith s p = (take (length p) s = p)"

definition substring :: "string \<Rightarrow> nat \<Rightarrow> string" where
  "substring s n = drop n s"

text \<open>
  Lines 267 to 272 of \<open>injectAuthMiddleware\<close>: the bearer token read from the value
  of the Authorization header (\<open>None\<close> when the header is absent).
\<close>

definition bearerToken_of :: "string option \<Rightarrow> string option" where
  "bearerToken_of authHeader =
     (case authHeader of
        None \<Rightarrow> None
      | Some h \<Rightarrow>
          if h \<noteq> [] \<and> startsWith h ''Bearer '' then Some (substring h 7) else None)"

text \<open>
  \<open>injectAuthMiddleware\<close> (lines 258 to 291). \<open>headers\<close> maps the lower-cased header
  names to their values. \<open>body\<close> is \<open>None\<close> when \<^verbatim>\<open>req.body\<close> is not an object, and
  otherwise the \<^verbatim>\<open>params._meta\<close> of the body, empty when the body had none. A
  credential is written only when it is truthy.
\<close>

definition injectAuthMiddleware :: "(string \<rightharpoonup> string) \<Rightarrow> meta option \<Rightarrow> meta option" where
  "injectAuthMiddleware headers body =
     (let apiKey = headers ''x-api-key'';
          bearerToken = bearerToken_of (headers ''authorization'')
      in case body of
           None \<Rightarrow> None
         | Some m \<Rightarrow>
             (let m1 = (if truthy_str apiKey then m(''apiKey'' := apiKey) else m);
                  m2 = (if truthy_str bearerToken then m1(''bearerToken'' := bearerToken) else m1)
              in Some m2))"

subsection \<open>The token and revocation endpoints\<close>

datatype json_body =
    TokenBody string string nat string
  | ErrorBody string string
  | RevokedBody bool

text \<open>
  \<open>TokenBody\<close> holds \<open>access_token\<close>, \<open>token_type\<close>, \<open>expires_in\<close> and \<open>scope\<close>;
  \<open>ErrorBody\<close> holds \<open>error\<close> and \<open>error_description\<close>; \<open>RevokedBody\<close> holds
  \<open>revoked\<close>. A response is a status code and a body.
\<close>

datatype http_response = Response nat json_body

text \<open>
  The handler of \<^verbatim>\<open>POST /oauth/token\<close> (lines 311 to 353): the response and the
  new \<open>validTokens\<close>. On the last branch \<^verbatim>\<open>client_id\<close> is the string
  \<open>OAUTH_CLIENT_ID\<close>, which is what the payload receives.
\<close>

definition oauth_token ::
  "mac \<Rightarrow> string set \<Rightarrow> nat \<Rightarrow> json_object \<Rightarrow> http_response \<times> string set" where
  "oauth_token mac validTokens now_ms body =
     (if body ''grant_type'' \<noteq> Some (JStr ''client_credentials'') then
        (Response 400 (ErrorBody ''unsupported_grant_type''
           ''Only client_credentials grant type is supported''), validTokens)
      else if body ''client_id'' \<noteq> Some (JStr OAUTH_CLIENT_ID)
              \<or> body ''client_secret'' \<noteq> Some (JStr OAUTH_CLIENT_SECRET) then
        (Response 401 (ErrorBody ''invalid_client'' ''Invalid client credentials''),
         validTokens)
      else
        (let accessToken =
               jwt_sign mac now_ms
                 \<lparr>client_id = OAUTH_CLIENT_ID, scope = ''mcp:tools'',
                  iat = now_ms div 1000\<rparr>
                 JWT_SECRET 3600
         in (Response 200 (TokenBody accessToken ''Bearer'' 3600 ''mcp:tools''),
             insert accessToken validTokens)))"

text \<open>
  The handler of \<^verbatim>\<open>POST /oauth/revoke\<close> (lines 356 to 371). \<open>validTokens\<close> holds
  strings only, so deleting a value that is not a string removes nothing.
\<close>

definition oauth_revoke :: "string set \<Rightarrow> json_object \<Rightarrow> http_response \<times> string set" where
  "oauth_revoke validTokens body =
     (if \<not> truthy (body ''token'') then
        (Response 400 (ErrorBody ''invalid_request'' ''Token parameter is required''),
         validTokens)
      else
        (Response 200 (RevokedBody True),
         (case body ''token'' of
            Some (JStr t) \<Rightarrow> validTokens - {t}
          | _ \<Rightarrow> validTokens)))"

section \<open>Notions used by the statements\<close>

text \<open>
  The two conditions that \<open>jwt_verify\<close> tests on a token of three segments, named
  apart: the third segment is the tag of the first two under the secret, and the
  \<open>exp\<close> claim of the payload is at or before the clock.
\<close>

definition signature_verifies :: "mac \<Rightarrow> string \<Rightarrow> string \<Rightarrow> bool" where
  "signature_verifies mac secret token =
     (case split_on CHR ''.'' token of
        [h, p, s] \<Rightarrow> s = signature_segment mac secret (h @ ''.'' @ p)
      | _ \<Rightarrow> False)"

definition expiry_passed :: "nat \<Rightarrow> string \<Rightarrow> bool" where
  "expiry_passed now_ms token =
     (case split_on CHR ''.'' token of
        [h, p, s] \<Rightarrow>
          (case decode_payload p of
             Some c \<Rightarrow> exp c \<le> now_ms div 1000
           | None \<Rightarrow> False)
      | _ \<Rightarrow> False)"

text \<open>
  A token that \<open>jwt_verify\<close> cannot take apart: it has not three segments, or its
  payload or header does not decode.
\<close>

definition structurally_malformed :: "string \<Rightarrow> bool" where
  "structurally_malformed token =
     (case split_on CHR ''.'' token of
        [h, p, s] \<Rightarrow> decode_payload p = None \<or> h \<noteq> jwt_header
      | _ \<Rightarrow> True)"

text \<open>The one rejection that \<open>validateAuth\<close> gives for a bearer token.\<close>

definition generic_rejection :: McpError where
  "generic_rejection = McpError InvalidRequest ''Invalid or expired OAuth2 token''"

text \<open>A request body with the configured credentials.\<close>

definition valid_credentials :: json_object where
  "valid_credentials =
     [''grant_type'' \<mapsto> JStr ''client_credentials'',
      ''client_id'' \<mapsto> JStr OAUTH_CLIENT_ID,
      ''client_secret'' \<mapsto> JStr OAUTH_CLIENT_SECRET]"

text \<open>The access token of a response, if it carries one.\<close>

fun access_tokens_of :: "http_response \<Rightarrow> string list" where
  "access_tokens_of (Response st (TokenBody a ty e sc)) = [a]"
| "access_tokens_of (Response st (ErrorBody e d)) = []"
| "access_tokens_of (Response st (RevokedBody b)) = []"

text \<open>
  A run of issuance requests with valid credentials, one for each clock value of the
  list, in order: the tokens returned and the final \<open>validTokens\<close>.
\<close>

fun issue_all :: "mac \<Rightarrow> string set \<Rightarrow> nat list \<Rightarrow> string list \<times> string set" where
  "issue_all mac validTokens [] = ([], validTokens)"
| "issue_all mac validTokens (now_ms # rest) =
     (case oauth_token mac validTokens now_ms valid_credentials of
        (r, validTokens1) \<Rightarrow>
          (case issue_all mac validTokens1 rest of
             (toks, validTokens2) \<Rightarrow> (access_tokens_of r @ toks, validTokens2)))"

text \<open>
  The token that the issuance handler signs at the clock \<open>now_ms\<close>, and its claims.
\<close>

definition issued_token :: "mac \<Rightarrow> nat \<Rightarrow> string" where
  "issued_token mac now_ms =
     jwt_sign mac now_ms
       \<lparr>client_id = OAUTH_CLIENT_ID, scope = ''mcp:tools'', iat = now_ms div 1000\<rparr>
       JWT_SECRET 3600"

definition issued_claims :: "nat \<Rightarrow> claims" where
  "issued_claims now_ms =
     \<lparr>client_id = OAUTH_CLIENT_ID, scope = ''mcp:tools'', iat = now_ms div 1000,
      exp = now_ms div 1000 + 3600\<rparr>"

text \<open>A tag function for the concrete instances: the key followed by the message.\<close>

definition concat_mac :: mac where
  "concat_mac key msg = key @ msg"

section \<open>The token codec\<close>

lemma split_on_no_sep: "c \<notin> set xs \<Longrightarrow> split_on c xs = [xs]"
  by (induction xs) auto

lemma split_on_append: "c \<notin> set xs \<Longrightarrow> split_on c (xs @ c # ys) = xs # split_on c ys"
  by (induction xs) auto

lemma read_digits_append:
  "read_digits acc (xs @ ys) =
     (case read_digits acc xs of None \<Rightarrow> None | Some a \<Rightarrow> read_digits a ys)"
  by (induction xs arbitrary: acc) auto

lemma is_digit_digit_char: "d < 10 \<Longrightarrow> is_digit (digit_char d)"
  by (simp add: is_digit_def digit_char_def)

lemma of_char_digit_char: "d < 10 \<Longrightarrow> (of_char (digit_char d) :: nat) = 48 + d"
  by (simp add: digit_char_def)

lemma read_digits_show_nat: "read_digits 0 (show_nat n) = Some n"
proof (induction n rule: show_nat.induct)
  case (1 n)
  show ?case
  proof (cases "n < 10")
    case True
    then show ?thesis
      by (subst show_nat.simps) (simp add: is_digit_digit_char of_char_digit_char)
  next
    case False
    with 1 have ih: "read_digits 0 (show_nat (n div 10)) = Some (n div 10)" by simp
    have d: "n mod 10 < 10" by simp
    show ?thesis
      using False
      by (subst show_nat.simps)
         (simp add: read_digits_append ih is_digit_digit_char [OF d] of_char_digit_char [OF d])
  qed
qed

lemma show_nat_nonempty: "show_nat n \<noteq> []"
  by (subst show_nat.simps) simp

lemma read_nat_show_nat: "read_nat (show_nat n) = Some n"
  by (simp add: read_nat_def show_nat_nonempty read_digits_show_nat)

lemma show_nat_digits: "c \<in> set (show_nat n) \<Longrightarrow> is_digit c"
proof (induction n rule: show_nat.induct)
  case (1 n)
  show ?case
  proof (cases "n < 10")
    case True
    with 1(2) show ?thesis
      by (subst (asm) show_nat.simps) (simp add: is_digit_digit_char)
  next
    case False
    have d: "n mod 10 < 10" by simp
    from 1(2) False have "c \<in> set (show_nat (n div 10)) \<or> c = digit_char (n mod 10)"
      by (subst (asm) show_nat.simps) auto
    with 1(1) False show ?thesis
      using is_digit_digit_char [OF d] by auto
  qed
qed

lemma comma_not_digit: "\<not> is_digit CHR '',''"
  by (simp add: is_digit_def)

lemma dot_not_digit: "\<not> is_digit CHR ''.''"
  by (simp add: is_digit_def)

lemma b64_sextets_bound:
  "\<forall>a\<in>set xs. a < 256 \<Longrightarrow> n \<in> set (b64_sextets xs) \<Longrightarrow> n < 64"
proof (induction xs arbitrary: n rule: b64_sextets.induct)
  case (1 a b c rest)
  from "1.prems"(1) have ab: "a < 256" "b < 256" "c < 256" by simp_all
  from "1.prems" consider "n = a div 4" | "n = (a mod 4) * 16 + b div 16"
    | "n = (b mod 16) * 4 + c div 64" | "n = c mod 64" | "n \<in> set (b64_sextets rest)"
    by auto
  then show ?case
  proof cases
    case 5
    with "1.IH" "1.prems"(1) show ?thesis by simp
  qed (use ab in arith)+
next
  case (2 a b)
  then show ?case by auto
next
  case (3 a)
  then show ?case by auto
next
  case 4
  then show ?case by simp
qed

lemma dot_not_b64: "CHR ''.'' \<notin> set b64_alphabet"
  by (simp add: b64_alphabet_def)

lemma length_b64_alphabet: "length b64_alphabet = 64"
  by (simp add: b64_alphabet_def)

lemma base64url_alphabet: "set (base64url s) \<subseteq> set b64_alphabet"
proof
  fix x assume "x \<in> set (base64url s)"
  then obtain n where n: "n \<in> set (b64_sextets (map of_char s))" and x: "x = b64_alphabet ! n"
    by (auto simp: base64url_def)
  have "\<forall>a\<in>set (map of_char s :: nat list). a < 256"
    by simp
  then have "n < 64" using n by (rule b64_sextets_bound)
  with x show "x \<in> set b64_alphabet"
    by (simp add: length_b64_alphabet)
qed

lemma dot_not_base64url: "CHR ''.'' \<notin> set (base64url s)"
  using base64url_alphabet dot_not_b64 by blast

lemma decode_encode_payload:
  assumes "CHR '','' \<notin> set (client_id c)" and "CHR '','' \<notin> set (scope c)"
  shows "decode_payload (encode_payload c) =
           Some \<lparr>client_id = client_id c, scope = scope c, iat = iat c, exp = exp c\<rparr>"
proof -
  have n: "CHR '','' \<notin> set (show_nat k)" for k
    using show_nat_digits comma_not_digit by blast
  have "split_on CHR '','' (encode_payload c) =
          [client_id c, scope c, show_nat (iat c), show_nat (exp c)]"
    using assms
    by (simp add: encode_payload_def split_on_append split_on_no_sep n)
  then show ?thesis
    by (simp add: decode_payload_def read_nat_show_nat)
qed

lemma dot_not_encode_payload:
  assumes "CHR ''.'' \<notin> set (client_id c)" and "CHR ''.'' \<notin> set (scope c)"
  shows "CHR ''.'' \<notin> set (encode_payload c)"
proof -
  have n: "CHR ''.'' \<notin> set (show_nat k)" for k
    using show_nat_digits dot_not_digit by blast
  show ?thesis using assms by (simp add: encode_payload_def n)
qed

lemma dot_not_jwt_header: "CHR ''.'' \<notin> set jwt_header"
  by (simp add: jwt_header_def)

section \<open>Issued tokens\<close>

lemma split_on_three:
  assumes "c \<notin> set h" and "c \<notin> set p" and "c \<notin> set s"
  shows "split_on c (h @ c # p @ c # s) = [h, p, s]"
  using assms by (simp add: split_on_append split_on_no_sep)

lemma issued_token_eq:
  "issued_token mac now_ms =
     jwt_header @ CHR ''.'' # encode_payload (issued_claims now_ms) @ CHR ''.'' #
       signature_segment mac JWT_SECRET
         (jwt_header @ CHR ''.'' # encode_payload (issued_claims now_ms))"
  by (simp add: issued_token_def jwt_sign_def issued_claims_def Let_def)

lemma issued_claims_no_dot: "CHR ''.'' \<notin> set (encode_payload (issued_claims now_ms))"
  by (rule dot_not_encode_payload) (simp_all add: issued_claims_def OAUTH_CLIENT_ID_def)

lemma decode_issued_claims:
  "decode_payload (encode_payload (issued_claims now_ms)) = Some (issued_claims now_ms)"
  by (subst decode_encode_payload) (simp_all add: issued_claims_def OAUTH_CLIENT_ID_def)

lemma split_issued_token:
  "split_on CHR ''.'' (issued_token mac now_ms) =
     [jwt_header, encode_payload (issued_claims now_ms),
      signature_segment mac JWT_SECRET
        (jwt_header @ CHR ''.'' # encode_payload (issued_claims now_ms))]"
  unfolding issued_token_eq
  by (rule split_on_three)
     (simp_all add: dot_not_jwt_header issued_claims_no_dot signature_segment_def
        dot_not_base64url)

lemma issued_token_nonempty: "issued_token mac now_ms \<noteq> []"
  by (simp add: issued_token_eq)

lemma jwt_verify_issued:
  "jwt_verify mac now' (issued_token mac now_ms) JWT_SECRET =
     (if now_ms div 1000 + 3600 \<le> now' div 1000 then Inl TokenExpiredError
      else Inr (issued_claims now_ms))"
  by (simp add: jwt_verify_def issued_token_nonempty split_issued_token decode_issued_claims)
     (simp add: issued_claims_def)

lemma issued_token_inj:
  "issued_token mac a = issued_token mac' b \<Longrightarrow> a div 1000 = b div 1000"
proof -
  assume "issued_token mac a = issued_token mac' b"
  then have "split_on CHR ''.'' (issued_token mac a) = split_on CHR ''.'' (issued_token mac' b)"
    by simp
  then have "encode_payload (issued_claims a) = encode_payload (issued_claims b)"
    by (simp add: split_issued_token)
  then have "decode_payload (encode_payload (issued_claims a)) =
             decode_payload (encode_payload (issued_claims b))"
    by simp
  then have "issued_claims a = issued_claims b"
    by (simp add: decode_issued_claims)
  then show ?thesis by (simp add: issued_claims_def)
qed

lemma oauth_token_valid:
  assumes "body ''grant_type'' = Some (JStr ''client_credentials'')"
    and "body ''client_id'' = Some (JStr OAUTH_CLIENT_ID)"
    and "body ''client_secret'' = Some (JStr OAUTH_CLIENT_SECRET)"
  shows "oauth_token mac validTokens now_ms body =
     (Response 200 (TokenBody (issued_token mac now_ms) ''Bearer'' 3600 ''mcp:tools''),
      insert (issued_token mac now_ms) validTokens)"
  using assms by (simp add: oauth_token_def issued_token_def Let_def)

lemma validateAuth_bearer:
  assumes "apiKey \<noteq> Some VALID_API_KEY" and "tok \<noteq> []"
  shows "validateAuth mac validTokens now_ms apiKey (Some tok) =
     (if (\<exists>c. jwt_verify mac now_ms tok JWT_SECRET = Inr c) \<and> tok \<in> validTokens
      then Inr oauth2 else Inl generic_rejection)"
  using assms
  by (auto simp: validateAuth_def validateAuth_try_def generic_rejection_def
      split: sum.splits)

section \<open>Facts about validateAuth and the handlers\<close>

lemma jwt_verify_ok_iff:
  "(\<exists>c. jwt_verify mac now_ms tok secret = Inr c) \<longleftrightarrow>
     tok \<noteq> [] \<and> \<not> structurally_malformed tok \<and> signature_verifies mac secret tok
       \<and> \<not> expiry_passed now_ms tok"
  by (auto simp: jwt_verify_def structurally_malformed_def signature_verifies_def
        expiry_passed_def split: list.splits option.splits if_splits)

lemma validateAuth_oauth2D:
  assumes "validateAuth mac validTokens now_ms apiKey (Some tok) = Inr oauth2"
  shows "(\<exists>c. jwt_verify mac now_ms tok JWT_SECRET = Inr c) \<and> tok \<in> validTokens \<and> tok \<noteq> []"
  using assms
  by (auto simp: validateAuth_def validateAuth_try_def split: if_splits sum.splits)

lemma oauth_revoke_removes:
  assumes "oauth_revoke validTokens body = (Response 200 (RevokedBody True), validTokens')"
    and "body ''token'' = Some (JStr tok)"
  shows "tok \<noteq> [] \<and> validTokens' = validTokens - {tok}"
  using assms by (auto simp: oauth_revoke_def split: if_splits)

lemma oauth_token_TokenBodyD:
  assumes "oauth_token mac validTokens now_ms body =
             (Response 200 (TokenBody tok ty ei sc), validTokens')"
  shows "tok = issued_token mac now_ms"
  using assms
  by (auto simp: oauth_token_def issued_token_def Let_def split: if_splits)

lemma validateAuth_apikey:
  "validateAuth mac validTokens now_ms (Some VALID_API_KEY) bearerToken = Inr apikey"
  by (simp add: validateAuth_def VALID_API_KEY_def)

lemma validateAuth_empty_bearer:
  assumes "apiKey \<noteq> Some VALID_API_KEY"
  shows "validateAuth mac validTokens now_ms apiKey (Some []) =
           validateAuth mac validTokens now_ms apiKey None"
  using assms by (simp add: validateAuth_def)

lemma validateAuth_registry_cong:
  assumes "tok \<in> A \<longleftrightarrow> tok \<in> B"
  shows "validateAuth mac A now_ms apiKey (Some tok) = validateAuth mac B now_ms apiKey (Some tok)"
proof (cases "apiKey = Some VALID_API_KEY")
  case True
  then show ?thesis by (simp add: validateAuth_apikey)
next
  case False
  show ?thesis
  proof (cases "tok = []")
    case True
    with False show ?thesis by (simp add: validateAuth_def)
  next
    case ne: False
    with False assms show ?thesis by (simp add: validateAuth_bearer)
  qed
qed

lemma expiry_passed_issued:
  "expiry_passed now_ms (issued_token mac issued_ms) \<longleftrightarrow>
     issued_ms div 1000 + 3600 \<le> now_ms div 1000"
  by (simp add: expiry_passed_def split_issued_token decode_issued_claims)
     (simp add: issued_claims_def)

lemma issue_all_eq:
  "issue_all mac validTokens clocks =
     (map (issued_token mac) clocks, validTokens \<union> set (map (issued_token mac) clocks))"
proof (induction clocks arbitrary: validTokens)
  case Nil
  then show ?case by simp
next
  case (Cons t ts)
  have "oauth_token mac validTokens t valid_credentials =
          (Response 200 (TokenBody (issued_token mac t) ''Bearer'' 3600 ''mcp:tools''),
           insert (issued_token mac t) validTokens)"
    by (rule oauth_token_valid) (simp_all add: valid_credentials_def)
  then show ?case by (simp add: Cons.IH)
qed

lemma distinct_issued_tokens:
  assumes "distinct (map (\<lambda>t. t div 1000) clocks)"
  shows "distinct (map (issued_token mac) clocks)"
proof -
  from assms have d: "distinct clocks" and i: "inj_on (\<lambda>t. t div 1000) (set clocks)"
    by (simp_all add: distinct_map)
  have "inj_on (issued_token mac) (set clocks)"
  proof (rule inj_onI)
    fix a b assume "a \<in> set clocks" "b \<in> set clocks" "issued_token mac a = issued_token mac b"
    with i issued_token_inj [of mac a mac b] show "a = b" by (auto dest: inj_onD)
  qed
  with d show ?thesis by (simp add: distinct_map)
qed

text \<open>
  What \<open>validateAuth\<close> requires before it answers \<open>oauth2\<close>: \<open>jwt_verify\<close> accepted
  the token, so its signature verifies under \<open>JWT_SECRET\<close> and its expiry has not
  passed at the clock, and the token is in \<open>validTokens\<close>. In the registry that a
  revocation leaves, and in every registry that does not hold the token, a request
  presenting it is never answered \<open>oauth2\<close>.
\<close>

lemma validateAuth_oauth2_only_if:
  "(validateAuth mac validTokens now_ms apiKey (Some tok) = Inr oauth2 \<longrightarrow>
      (\<exists>decoded. jwt_verify mac now_ms tok JWT_SECRET = Inr decoded)
        \<and> signature_verifies mac JWT_SECRET tok \<and> \<not> expiry_passed now_ms tok
        \<and> tok \<in> validTokens)
   \<and> (oauth_revoke validTokens body = (Response 200 (RevokedBody True), validTokens')
        \<longrightarrow> body ''token'' = Some (JStr tok)
        \<longrightarrow> tok \<notin> validTokens'
            \<and> validateAuth mac validTokens' later_ms apiKey (Some tok) \<noteq> Inr oauth2
            \<and> (apiKey \<noteq> Some VALID_API_KEY \<longrightarrow>
                 validateAuth mac validTokens' later_ms apiKey (Some tok) =
                   Inl generic_rejection))
   \<and> (tok \<notin> registry \<longrightarrow>
        validateAuth mac registry later_ms apiKey (Some tok) \<noteq> Inr oauth2)"
proof (intro conjI impI)
  assume a: "validateAuth mac validTokens now_ms apiKey (Some tok) = Inr oauth2"
  from validateAuth_oauth2D [OF a]
  show v: "\<exists>decoded. jwt_verify mac now_ms tok JWT_SECRET = Inr decoded"
    and "tok \<in> validTokens"
    by simp_all
  from v show "signature_verifies mac JWT_SECRET tok" by (simp add: jwt_verify_ok_iff)
  from v show "\<not> expiry_passed now_ms tok" by (simp add: jwt_verify_ok_iff)
next
  assume r: "oauth_revoke validTokens body = (Response 200 (RevokedBody True), validTokens')"
    and b: "body ''token'' = Some (JStr tok)"
  from oauth_revoke_removes [OF r b]
  have ne: "tok \<noteq> []" and eq: "validTokens' = validTokens - {tok}" by simp_all
  from eq show n: "tok \<notin> validTokens'" by simp
  from n show "validateAuth mac validTokens' later_ms apiKey (Some tok) \<noteq> Inr oauth2"
    using validateAuth_oauth2D by blast
  assume k: "apiKey \<noteq> Some VALID_API_KEY"
  from n show "validateAuth mac validTokens' later_ms apiKey (Some tok) = Inl generic_rejection"
    using k ne by (simp add: validateAuth_bearer)
next
  assume "tok \<notin> registry"
  then show "validateAuth mac registry later_ms apiKey (Some tok) \<noteq> Inr oauth2"
    using validateAuth_oauth2D by blast
qed

section \<open>The claims\<close>

text \<open>
  C1. The claim: \<open>validateAuth\<close> answers \<open>oauth2\<close> only for a token whose signature
  verifies, whose expiry has not passed and which is in the registry, and a token
  that has been revoked fails every later validation with the generic rejection.
  The source keeps the first half and breaks the second. The payload that the
  issuance handler signs holds the client id, the scope and the second of issuance,
  and nothing else, so a second issuance within the same second returns the same
  string and registers it again. In the run below, for any tag function, a token is
  issued at the clock 5000 and authenticates; it is revoked and is rejected at 5300;
  a second issuance at 5400 returns the revoked string; and at 6000 a request that
  presents the revoked token is answered \<open>oauth2\<close>.
\<close>

theorem revoked_token_accepted_after_reissue:
  "oauth_token mac {} 5000 valid_credentials =
     (Response 200 (TokenBody (issued_token mac 5000) ''Bearer'' 3600 ''mcp:tools''),
      {issued_token mac 5000})
   \<and> validateAuth mac {issued_token mac 5000} 5100 None (Some (issued_token mac 5000)) =
       Inr oauth2
   \<and> oauth_revoke {issued_token mac 5000} [''token'' \<mapsto> JStr (issued_token mac 5000)] =
       (Response 200 (RevokedBody True), {})
   \<and> validateAuth mac {} 5300 None (Some (issued_token mac 5000)) = Inl generic_rejection
   \<and> oauth_token mac {} 5400 valid_credentials =
       (Response 200 (TokenBody (issued_token mac 5000) ''Bearer'' 3600 ''mcp:tools''),
        {issued_token mac 5000})
   \<and> validateAuth mac {issued_token mac 5000} 6000 None (Some (issued_token mac 5000)) =
       Inr oauth2"
proof -
  let ?t = "issued_token mac 5000"
  have same: "issued_token mac 5400 = ?t"
    by (simp add: issued_token_def jwt_sign_def)
  have v: "valid_credentials ''grant_type'' = Some (JStr ''client_credentials'')"
    "valid_credentials ''client_id'' = Some (JStr OAUTH_CLIENT_ID)"
    "valid_credentials ''client_secret'' = Some (JStr OAUTH_CLIENT_SECRET)"
    by (simp_all add: valid_credentials_def)
  have i1: "oauth_token mac {} 5000 valid_credentials =
              (Response 200 (TokenBody ?t ''Bearer'' 3600 ''mcp:tools''), {?t})"
    using oauth_token_valid [OF v, of mac "{}" 5000] by simp
  have i2: "oauth_token mac {} 5400 valid_credentials =
              (Response 200 (TokenBody ?t ''Bearer'' 3600 ''mcp:tools''), {?t})"
    using oauth_token_valid [OF v, of mac "{}" 5400] by (simp add: same)
  have r: "oauth_revoke {?t} [''token'' \<mapsto> JStr ?t] = (Response 200 (RevokedBody True), {})"
    by (simp add: oauth_revoke_def issued_token_nonempty)
  have a1: "validateAuth mac {?t} 5100 None (Some ?t) = Inr oauth2"
    by (simp add: validateAuth_bearer issued_token_nonempty jwt_verify_issued)
  have a2: "validateAuth mac {} 5300 None (Some ?t) = Inl generic_rejection"
    by (simp add: validateAuth_bearer issued_token_nonempty)
  have a3: "validateAuth mac {?t} 6000 None (Some ?t) = Inr oauth2"
    by (simp add: validateAuth_bearer issued_token_nonempty jwt_verify_issued)
  from i1 a1 r a2 i2 a3 show ?thesis by (intro conjI)
qed

theorem revoked_token_accepted_after_reissue_witness:
  "oauth_revoke {issued_token concat_mac 5000}
       [''token'' \<mapsto> JStr (issued_token concat_mac 5000)] =
     (Response 200 (RevokedBody True), {})
   \<and> oauth_token concat_mac {} 5400 valid_credentials =
       (Response 200 (TokenBody (issued_token concat_mac 5000) ''Bearer'' 3600 ''mcp:tools''),
        {issued_token concat_mac 5000})
   \<and> validateAuth concat_mac {issued_token concat_mac 5000} 6000 None
        (Some (issued_token concat_mac 5000)) = Inr oauth2"
  using revoked_token_accepted_after_reissue [of concat_mac] by blast

text \<open>
  C2. A request body that carries the grant type \<open>client_credentials\<close> and the
  configured client id and secret gets the status 200 with a token of type Bearer,
  \<open>expires_in\<close> 3600 and scope \<open>mcp:tools\<close>; the token is added to the registry;
  and presented at once as a bearer token (the API key absent or wrong) it
  authenticates as \<open>oauth2\<close>.
\<close>

theorem issuance_then_validation:
  assumes "body ''grant_type'' = Some (JStr ''client_credentials'')"
    and "body ''client_id'' = Some (JStr OAUTH_CLIENT_ID)"
    and "body ''client_secret'' = Some (JStr OAUTH_CLIENT_SECRET)"
    and "apiKey \<noteq> Some VALID_API_KEY"
  shows "\<exists>tok validTokens'.
           oauth_token mac validTokens now_ms body =
             (Response 200 (TokenBody tok ''Bearer'' 3600 ''mcp:tools''), validTokens')
           \<and> validTokens' = insert tok validTokens
           \<and> validateAuth mac validTokens' now_ms apiKey (Some tok) = Inr oauth2"
proof -
  let ?t = "issued_token mac now_ms"
  have "oauth_token mac validTokens now_ms body =
          (Response 200 (TokenBody ?t ''Bearer'' 3600 ''mcp:tools''), insert ?t validTokens)"
    using assms(1-3) by (rule oauth_token_valid)
  moreover have "validateAuth mac (insert ?t validTokens) now_ms apiKey (Some ?t) = Inr oauth2"
    using assms(4) by (simp add: validateAuth_bearer issued_token_nonempty jwt_verify_issued)
  ultimately show ?thesis by blast
qed

theorem issuance_then_validation_witness:
  "valid_credentials ''grant_type'' = Some (JStr ''client_credentials'')
   \<and> valid_credentials ''client_id'' = Some (JStr OAUTH_CLIENT_ID)
   \<and> valid_credentials ''client_secret'' = Some (JStr OAUTH_CLIENT_SECRET)
   \<and> (\<exists>tok validTokens'.
         oauth_token concat_mac {} 5000 valid_credentials =
           (Response 200 (TokenBody tok ''Bearer'' 3600 ''mcp:tools''), validTokens')
         \<and> validTokens' = insert tok {}
         \<and> validateAuth concat_mac validTokens' 5000 None (Some tok) = Inr oauth2)"
proof -
  have g: "valid_credentials ''grant_type'' = Some (JStr ''client_credentials'')"
    and c: "valid_credentials ''client_id'' = Some (JStr OAUTH_CLIENT_ID)"
    and s: "valid_credentials ''client_secret'' = Some (JStr OAUTH_CLIENT_SECRET)"
    by (simp_all add: valid_credentials_def)
  have k: "(None :: string option) \<noteq> Some VALID_API_KEY" by simp
  from issuance_then_validation [OF g c s k, of concat_mac "{}" 5000] g c s
  show ?thesis by simp
qed

text \<open>
  C3. A presented (non-empty) bearer token that fails gets one and the same error,
  code -32600 with the message "Invalid or expired OAuth2 token": the error of every
  failing call is this one, and each cause (a malformed token, a bad signature, an
  expiry that has passed, a token absent from the registry) leads to it.
\<close>

theorem validateAuth_rejection_uniform:
  assumes "tok \<noteq> []"
  shows "(validateAuth mac validTokens now_ms apiKey (Some tok) = Inl e \<longrightarrow>
            e = generic_rejection)
         \<and> (apiKey \<noteq> Some VALID_API_KEY \<longrightarrow>
              (structurally_malformed tok \<or> \<not> signature_verifies mac JWT_SECRET tok
                 \<or> expiry_passed now_ms tok \<or> tok \<notin> validTokens) \<longrightarrow>
              validateAuth mac validTokens now_ms apiKey (Some tok) = Inl generic_rejection)"
proof (intro conjI impI)
  assume "validateAuth mac validTokens now_ms apiKey (Some tok) = Inl e"
  then show "e = generic_rejection"
    using assms
    by (auto simp: validateAuth_def generic_rejection_def split: if_splits sum.splits)
next
  assume k: "apiKey \<noteq> Some VALID_API_KEY"
    and "structurally_malformed tok \<or> \<not> signature_verifies mac JWT_SECRET tok
           \<or> expiry_passed now_ms tok \<or> tok \<notin> validTokens"
  then have "\<not> ((\<exists>c. jwt_verify mac now_ms tok JWT_SECRET = Inr c) \<and> tok \<in> validTokens)"
    by (auto simp: jwt_verify_ok_iff)
  then show "validateAuth mac validTokens now_ms apiKey (Some tok) = Inl generic_rejection"
    using k assms by (simp add: validateAuth_bearer)
qed

theorem validateAuth_rejection_uniform_witness:
  "validateAuth concat_mac {} 5000 (Some ''wrong-key'') (Some ''not-a-real-token'')
        = Inl generic_rejection
   \<and> validateAuth concat_mac
        {''eyJhbGciOiJIUzI1NiIsInR5cCI6IkpXVCJ9.mcp-client,mcp:tools,5,3605.AAAA''} 5000 None
        (Some ''eyJhbGciOiJIUzI1NiIsInR5cCI6IkpXVCJ9.mcp-client,mcp:tools,5,3605.AAAA'')
        = Inl generic_rejection
   \<and> validateAuth concat_mac {issued_token concat_mac 5000} 3605000 None
        (Some (issued_token concat_mac 5000)) = Inl generic_rejection
   \<and> validateAuth concat_mac {} 5000 None (Some (issued_token concat_mac 5000))
        = Inl generic_rejection"
proof -
  let ?bad = "''eyJhbGciOiJIUzI1NiIsInR5cCI6IkpXVCJ9.mcp-client,mcp:tools,5,3605.AAAA''"
  let ?t = "issued_token concat_mac 5000"
  have k: "Some ''wrong-key'' \<noteq> Some VALID_API_KEY" by (simp add: VALID_API_KEY_def)
  have n: "None \<noteq> Some VALID_API_KEY" by simp
  have m: "structurally_malformed ''not-a-real-token''"
    by (simp add: structurally_malformed_def)
  have s: "\<not> signature_verifies concat_mac JWT_SECRET ?bad"
    by (simp add: signature_verifies_def signature_segment_def base64url_def concat_mac_def
          JWT_SECRET_def b64_alphabet_def)
  have x: "expiry_passed 3605000 ?t"
    by (simp add: expiry_passed_issued)
  have a: "?t \<notin> {}" by simp
  have 1: "validateAuth concat_mac {} 5000 (Some ''wrong-key'') (Some ''not-a-real-token'')
             = Inl generic_rejection"
    using validateAuth_rejection_uniform
            [of "''not-a-real-token''" concat_mac "{}" 5000 "Some ''wrong-key''"] k m
    by simp
  have 2: "validateAuth concat_mac {?bad} 5000 None (Some ?bad) = Inl generic_rejection"
    using validateAuth_rejection_uniform [of ?bad concat_mac "{?bad}" 5000 None] n s
    by simp
  have 3: "validateAuth concat_mac {?t} 3605000 None (Some ?t) = Inl generic_rejection"
    using validateAuth_rejection_uniform [of ?t concat_mac "{?t}" 3605000 None] n x
    by (simp add: issued_token_nonempty)
  have 4: "validateAuth concat_mac {} 5000 None (Some ?t) = Inl generic_rejection"
    using validateAuth_rejection_uniform [of ?t concat_mac "{}" 5000 None] n a
    by (simp add: issued_token_nonempty)
  from 1 2 3 4 show ?thesis by simp
qed

text \<open>
  C4. An issuance request whose grant type is not exactly \<open>client_credentials\<close> gets
  the error \<open>unsupported_grant_type\<close> (status 400), whatever its credentials; one
  with that grant type whose client id or client secret differs from the configured
  pair gets \<open>invalid_client\<close> (status 401); on both paths the response carries no
  token and the registry is returned as it was.
\<close>

theorem oauth_token_error_paths:
  "(body ''grant_type'' \<noteq> Some (JStr ''client_credentials'') \<longrightarrow>
      oauth_token mac validTokens now_ms body =
        (Response 400 (ErrorBody ''unsupported_grant_type''
           ''Only client_credentials grant type is supported''), validTokens))
   \<and> (body ''grant_type'' = Some (JStr ''client_credentials'') \<longrightarrow>
        (body ''client_id'' \<noteq> Some (JStr OAUTH_CLIENT_ID)
           \<or> body ''client_secret'' \<noteq> Some (JStr OAUTH_CLIENT_SECRET)) \<longrightarrow>
        oauth_token mac validTokens now_ms body =
          (Response 401 (ErrorBody ''invalid_client'' ''Invalid client credentials''),
           validTokens))"
  by (simp add: oauth_token_def)

theorem oauth_token_error_paths_witness:
  "oauth_token concat_mac {''t''} 5000
       [''grant_type'' \<mapsto> JStr ''password'', ''client_id'' \<mapsto> JStr ''wrong-id'',
        ''client_secret'' \<mapsto> JStr ''wrong-secret''] =
     (Response 400 (ErrorBody ''unsupported_grant_type''
        ''Only client_credentials grant type is supported''), {''t''})
   \<and> oauth_token concat_mac {''t''} 5000
       [''grant_type'' \<mapsto> JStr ''client_credentials'', ''client_id'' \<mapsto> JStr ''mcp-client'',
        ''client_secret'' \<mapsto> JStr ''wrong-secret''] =
     (Response 401 (ErrorBody ''invalid_client'' ''Invalid client credentials''), {''t''})"
  using
    oauth_token_error_paths [of
      "[''grant_type'' \<mapsto> JStr ''password'', ''client_id'' \<mapsto> JStr ''wrong-id'',
        ''client_secret'' \<mapsto> JStr ''wrong-secret'']" concat_mac "{''t''}" 5000]
    oauth_token_error_paths [of
      "[''grant_type'' \<mapsto> JStr ''client_credentials'', ''client_id'' \<mapsto> JStr ''mcp-client'',
        ''client_secret'' \<mapsto> JStr ''wrong-secret'']" concat_mac "{''t''}" 5000]
  by (simp add: OAUTH_CLIENT_SECRET_def)

text \<open>
  C5, as amended. The handler tests the token for truthiness. A revocation request
  whose token is truthy, so every non-empty string, gets \<open>revoked: true\<close> with
  status 200, whether or not the token is in the registry, and again when the request
  is repeated. A request whose token is missing or falsy (the empty string among
  them) gets the error \<open>invalid_request\<close> with status 400 and leaves the registry
  alone. The response never depends on the registry.
\<close>

theorem oauth_revoke_responses:
  "(truthy (body ''token'') \<longrightarrow>
      fst (oauth_revoke validTokens body) = Response 200 (RevokedBody True)
      \<and> fst (oauth_revoke (snd (oauth_revoke validTokens body)) body) =
          Response 200 (RevokedBody True))
   \<and> (\<not> truthy (body ''token'') \<longrightarrow>
        oauth_revoke validTokens body =
          (Response 400 (ErrorBody ''invalid_request'' ''Token parameter is required''),
           validTokens))
   \<and> (body ''token'' = Some (JStr t) \<longrightarrow> truthy (body ''token'') = (t \<noteq> []))
   \<and> (body ''token'' = None \<longrightarrow> \<not> truthy (body ''token''))
   \<and> fst (oauth_revoke validTokens body) = fst (oauth_revoke validTokens' body)"
  by (simp add: oauth_revoke_def)

theorem oauth_revoke_responses_witness:
  "truthy ([''token'' \<mapsto> JStr ''never-issued''] ''token'')
   \<and> fst (oauth_revoke {} [''token'' \<mapsto> JStr ''never-issued'']) =
       Response 200 (RevokedBody True)
   \<and> fst (oauth_revoke (snd (oauth_revoke {} [''token'' \<mapsto> JStr ''never-issued'']))
          [''token'' \<mapsto> JStr ''never-issued'']) = Response 200 (RevokedBody True)
   \<and> \<not> truthy (Map.empty ''token'')
   \<and> oauth_revoke {''a''} Map.empty =
       (Response 400 (ErrorBody ''invalid_request'' ''Token parameter is required''), {''a''})"
  using oauth_revoke_responses [of "[''token'' \<mapsto> JStr ''never-issued'']" "{}" "''never-issued''" "{}"]
    oauth_revoke_responses [of Map.empty "{''a''}" "''''" "{}"]
  by simp

text \<open>
  The wording of C5 promises \<open>revoked: true\<close> for every request that carries a
  token value. A request that carries the empty string as its token gets the error
  instead.
\<close>

theorem oauth_revoke_empty_token_counterexample:
  "oauth_revoke {} [''token'' \<mapsto> JStr ''''] =
     (Response 400 (ErrorBody ''invalid_request'' ''Token parameter is required''), {})
   \<and> fst (oauth_revoke {} [''token'' \<mapsto> JStr '''']) \<noteq> Response 200 (RevokedBody True)"
  by (simp add: oauth_revoke_def)

text \<open>
  C6. A token issued at the clock \<open>issued_ms\<close> (so with \<open>iat\<close> the second
  \<open>issued_ms div 1000\<close> and a lifetime of 3600 seconds) that is still in the
  registry authenticates as \<open>oauth2\<close> when the clock reads 3599 seconds after
  \<open>iat\<close>, and gets the generic rejection when it reads 3601 seconds after.
\<close>

theorem token_lifetime_boundary:
  assumes "oauth_token mac validTokens issued_ms body =
             (Response 200 (TokenBody tok ty ei sc), validTokens')"
    and "tok \<in> registry"
    and "apiKey \<noteq> Some VALID_API_KEY"
  shows "(early_ms div 1000 = issued_ms div 1000 + 3599 \<longrightarrow>
            validateAuth mac registry early_ms apiKey (Some tok) = Inr oauth2)
         \<and> (late_ms div 1000 = issued_ms div 1000 + 3601 \<longrightarrow>
            validateAuth mac registry late_ms apiKey (Some tok) = Inl generic_rejection)"
proof -
  from assms(1) have t: "tok = issued_token mac issued_ms" by (rule oauth_token_TokenBodyD)
  show ?thesis
    using assms(2,3) unfolding t
    by (simp add: validateAuth_bearer issued_token_nonempty jwt_verify_issued)
qed

theorem token_lifetime_boundary_witness:
  "oauth_token concat_mac {} 5000 valid_credentials =
     (Response 200 (TokenBody (issued_token concat_mac 5000) ''Bearer'' 3600 ''mcp:tools''),
      {issued_token concat_mac 5000})
   \<and> (3604000::nat) div 1000 = 5000 div 1000 + 3599
   \<and> (3606000::nat) div 1000 = 5000 div 1000 + 3601
   \<and> validateAuth concat_mac {issued_token concat_mac 5000} 3604000 None
        (Some (issued_token concat_mac 5000)) = Inr oauth2
   \<and> validateAuth concat_mac {issued_token concat_mac 5000} 3606000 None
        (Some (issued_token concat_mac 5000)) = Inl generic_rejection"
proof -
  let ?t = "issued_token concat_mac 5000"
  have i: "oauth_token concat_mac {} 5000 valid_credentials =
             (Response 200 (TokenBody ?t ''Bearer'' 3600 ''mcp:tools''), {?t})"
    by (simp add: oauth_token_def valid_credentials_def issued_token_def Let_def)
  have m: "?t \<in> {?t}" by simp
  have k: "(None :: string option) \<noteq> Some VALID_API_KEY" by simp
  from token_lifetime_boundary [OF i m k, of 3604000 3606000] i
  show ?thesis by simp
qed

text \<open>
  C7. A request that presents the configured API key is answered \<open>apikey\<close>,
  whatever bearer token comes with it and whatever the registry holds, so the answer
  is the same for any two registries. In the other direction, when the API key
  comparison fails (the key is absent or wrong), the answer does not depend on which
  key was presented: it is decided by the bearer token, the registry and the clock.
\<close>

theorem apikey_oauth2_independent:
  "validateAuth mac validTokens now_ms (Some VALID_API_KEY) bearerToken = Inr apikey
   \<and> validateAuth mac validTokens now_ms (Some VALID_API_KEY) bearerToken =
       validateAuth mac validTokens' now_ms (Some VALID_API_KEY) bearerToken'
   \<and> (apiKey \<noteq> Some VALID_API_KEY \<longrightarrow> apiKey' \<noteq> Some VALID_API_KEY \<longrightarrow>
        validateAuth mac validTokens now_ms apiKey bearerToken =
          validateAuth mac validTokens now_ms apiKey' bearerToken)"
  by (simp add: validateAuth_def VALID_API_KEY_def)

theorem apikey_oauth2_independent_witness:
  "validateAuth concat_mac {issued_token concat_mac 5000} 5000 (Some VALID_API_KEY)
       (Some (issued_token concat_mac 5000)) = Inr apikey
   \<and> validateAuth concat_mac {issued_token concat_mac 5000} 5000 (Some VALID_API_KEY)
       (Some (issued_token concat_mac 5000)) =
      validateAuth concat_mac {} 5000 (Some VALID_API_KEY) None
   \<and> None \<noteq> Some VALID_API_KEY \<and> Some ''wrong-key'' \<noteq> Some VALID_API_KEY
   \<and> validateAuth concat_mac {issued_token concat_mac 5000} 5000 None
        (Some (issued_token concat_mac 5000)) =
       validateAuth concat_mac {issued_token concat_mac 5000} 5000 (Some ''wrong-key'')
        (Some (issued_token concat_mac 5000))"
proof -
  have k1: "None \<noteq> Some VALID_API_KEY" by simp
  have k2: "Some ''wrong-key'' \<noteq> Some VALID_API_KEY" by (simp add: VALID_API_KEY_def)
  from apikey_oauth2_independent [of concat_mac "{issued_token concat_mac 5000}" 5000
      "Some (issued_token concat_mac 5000)" "{}" None None "Some ''wrong-key''"] k1 k2
  show ?thesis by blast
qed

text \<open>
  C8, as amended. The middleware reads a bearer token from the Authorization header
  exactly when the value begins with the seven characters \<open>Bearer\<close> and one space,
  compared case-sensitively; the token is the rest of the value. Every other value
  (and a missing header) gives no token, and no error. With a body that had no
  metadata of its own, the token that reaches \<open>validateAuth\<close> is the rest of such a
  value when that rest is not empty.
\<close>

theorem bearer_extraction_exact_prefix:
  "(bearerToken_of authHeader = Some t \<longleftrightarrow> authHeader = Some (''Bearer '' @ t))
   \<and> (bearerToken_of authHeader = None \<longleftrightarrow>
        (\<forall>t. authHeader \<noteq> Some (''Bearer '' @ t)))
   \<and> (snd (getCredentialsFromMeta (injectAuthMiddleware headers (Some Map.empty))) = Some t
        \<longleftrightarrow> t \<noteq> [] \<and> headers ''authorization'' = Some (''Bearer '' @ t))"
proof (intro conjI)
  show e: "bearerToken_of h = Some u \<longleftrightarrow> h = Some (''Bearer '' @ u)" for h u
  proof (cases h)
    case None
    then show ?thesis by (simp add: bearerToken_of_def)
  next
    case (Some s)
    have "s \<noteq> [] \<and> startsWith s ''Bearer '' \<and> substring s 7 = u \<longleftrightarrow> s = ''Bearer '' @ u"
    proof
      assume a: "s \<noteq> [] \<and> startsWith s ''Bearer '' \<and> substring s 7 = u"
      have "length ''Bearer '' = 7" by simp
      with a have "take 7 s = ''Bearer ''" and "drop 7 s = u"
        by (simp_all only: startsWith_def substring_def)
      then have "take 7 s @ drop 7 s = ''Bearer '' @ u" by (simp only:)
      then show "s = ''Bearer '' @ u" by (simp only: append_take_drop_id)
    next
      assume "s = ''Bearer '' @ u"
      then show "s \<noteq> [] \<and> startsWith s ''Bearer '' \<and> substring s 7 = u"
        by (simp add: startsWith_def substring_def)
    qed
    with Some show ?thesis
      by (auto simp: bearerToken_of_def)
  qed
  show "bearerToken_of authHeader = None \<longleftrightarrow> (\<forall>t. authHeader \<noteq> Some (''Bearer '' @ t))"
    using e [of authHeader] by (cases "bearerToken_of authHeader") auto
  show "snd (getCredentialsFromMeta (injectAuthMiddleware headers (Some Map.empty))) = Some t
          \<longleftrightarrow> t \<noteq> [] \<and> headers ''authorization'' = Some (''Bearer '' @ t)"
    using e [of "headers ''authorization''" t]
    by (cases "bearerToken_of (headers ''authorization'')")
       (auto simp: getCredentialsFromMeta_def injectAuthMiddleware_def Let_def)
qed

text \<open>
  The wording of C8 has the scheme matched case-insensitively. The source calls
  \<^verbatim>\<open>startsWith("Bearer ")\<close>: a header in lower or upper case yields no token.
\<close>

theorem bearer_lowercase_scheme_counterexample:
  "bearerToken_of (Some ''bearer abc'') = None
   \<and> bearerToken_of (Some ''BEARER abc'') = None
   \<and> bearerToken_of (Some ''Bearer abc'') = Some ''abc''"
  by (simp add: bearerToken_of_def startsWith_def substring_def)

text \<open>
  C9, as amended. The token is a function of the second in which it is issued:
  issuance requests with valid credentials made in pairwise different seconds,
  starting from an empty registry, return as many pairwise distinct tokens as there
  were requests, the registry ends with exactly these tokens, and each of them
  authenticates as \<open>oauth2\<close> as long as the clock is before its expiry.
\<close>

theorem issuance_distinct_seconds:
  assumes "distinct (map (\<lambda>t. t div 1000) clocks)"
    and "issue_all mac {} clocks = (toks, registry)"
  shows "length toks = length clocks
         \<and> distinct toks
         \<and> registry = set toks
         \<and> card registry = length clocks
         \<and> (\<forall>i < length clocks. \<forall>now_ms.
               now_ms div 1000 < clocks ! i div 1000 + 3600 \<longrightarrow>
               validateAuth mac registry now_ms None (Some (toks ! i)) = Inr oauth2)"
proof -
  from assms(2) have t: "toks = map (issued_token mac) clocks" and r: "registry = set toks"
    by (auto simp: issue_all_eq)
  have d: "distinct toks" unfolding t using assms(1) by (rule distinct_issued_tokens)
  have l: "length toks = length clocks" by (simp add: t)
  have c: "card registry = length clocks"
    unfolding r using d l by (simp add: distinct_card)
  have v: "validateAuth mac registry now_ms None (Some (toks ! i)) = Inr oauth2"
    if "i < length clocks" and "now_ms div 1000 < clocks ! i div 1000 + 3600" for i now_ms
  proof -
    from that(1) have e: "toks ! i = issued_token mac (clocks ! i)" by (simp add: t)
    from that(1) l have "toks ! i \<in> registry" by (simp add: r)
    with that(2) show ?thesis
      unfolding e by (simp add: validateAuth_bearer issued_token_nonempty jwt_verify_issued)
  qed
  from l d r c v show ?thesis by blast
qed

theorem issuance_distinct_seconds_witness:
  "distinct (map (\<lambda>t. t div 1000) [5000, 6200 :: nat])
   \<and> issue_all concat_mac {} [5000, 6200] =
       ([issued_token concat_mac 5000, issued_token concat_mac 6200],
        {issued_token concat_mac 5000, issued_token concat_mac 6200})
   \<and> distinct [issued_token concat_mac 5000, issued_token concat_mac 6200]
   \<and> card {issued_token concat_mac 5000, issued_token concat_mac 6200} = 2
   \<and> validateAuth concat_mac {issued_token concat_mac 5000, issued_token concat_mac 6200}
        7000 None (Some (issued_token concat_mac 6200)) = Inr oauth2"
proof -
  let ?a = "issued_token concat_mac 5000" and ?b = "issued_token concat_mac 6200"
  have d: "distinct (map (\<lambda>t. t div 1000) [5000, 6200 :: nat])" by simp
  have i: "issue_all concat_mac {} [5000, 6200] = ([?a, ?b], {?a, ?b})"
    by (auto simp: issue_all_eq)
  note th = issuance_distinct_seconds [OF d i]
  from th have x: "distinct [?a, ?b]" and c: "card {?a, ?b} = length [5000, 6200 :: nat]"
    by blast+
  from th have v: "\<forall>i<length [5000, 6200 :: nat]. \<forall>now_ms.
           now_ms div 1000 < [5000, 6200] ! i div 1000 + 3600 \<longrightarrow>
           validateAuth concat_mac {?a, ?b} now_ms None (Some ([?a, ?b] ! i)) = Inr oauth2"
    by blast
  from v [rule_format, of 1 7000]
  have "validateAuth concat_mac {?a, ?b} 7000 None (Some ?b) = Inr oauth2" by simp
  moreover from c have "card {?a, ?b} = 2" by (simp del: card_insert_if)
  moreover note x
  ultimately have "distinct [?a, ?b] \<and> card {?a, ?b} = 2
     \<and> validateAuth concat_mac {?a, ?b} 7000 None (Some ?b) = Inr oauth2" by blast
  with d i show ?thesis by simp
qed

text \<open>
  The wording of C9 promises a new token for every call. Two calls within one second
  sign the same payload with the same secret: they return the same string, and the
  registry, a set, ends with one entry.
\<close>

theorem issuance_same_second_counterexample:
  "fst (issue_all concat_mac {} [5000, 5400]) =
     [issued_token concat_mac 5000, issued_token concat_mac 5000]
   \<and> \<not> distinct (fst (issue_all concat_mac {} [5000, 5400]))
   \<and> card (snd (issue_all concat_mac {} [5000, 5400])) = 1"
proof -
  have "issued_token concat_mac 5400 = issued_token concat_mac 5000"
    by (simp add: issued_token_def jwt_sign_def)
  then show ?thesis by (simp add: issue_all_eq)
qed

text \<open>
  C10. Revoking the token \<open>t\<close> removes at most \<open>t\<close> from the registry. For
  any other token \<open>t'\<close>, membership in the registry is the same before and after,
  and so is the answer of \<open>validateAuth\<close> to a request that presents \<open>t'\<close>.
\<close>

theorem revoke_frame:
  assumes "body ''token'' = Some (JStr t)" and "t' \<noteq> t"
  shows "(t' \<in> snd (oauth_revoke validTokens body) \<longleftrightarrow> t' \<in> validTokens)
         \<and> validTokens - {t} \<subseteq> snd (oauth_revoke validTokens body)
         \<and> snd (oauth_revoke validTokens body) \<subseteq> validTokens
         \<and> validateAuth mac (snd (oauth_revoke validTokens body)) now_ms apiKey (Some t') =
             validateAuth mac validTokens now_ms apiKey (Some t')"
proof -
  have m: "t' \<in> snd (oauth_revoke validTokens body) \<longleftrightarrow> t' \<in> validTokens"
    using assms by (simp add: oauth_revoke_def)
  have "validTokens - {t} \<subseteq> snd (oauth_revoke validTokens body)"
    and "snd (oauth_revoke validTokens body) \<subseteq> validTokens"
    using assms(1) by (auto simp: oauth_revoke_def)
  with m validateAuth_registry_cong [OF m] show ?thesis by simp
qed

theorem revoke_frame_witness:
  "[''token'' \<mapsto> JStr ''a''] ''token'' = Some (JStr ''a'') \<and> ''b'' \<noteq> ''a''
   \<and> snd (oauth_revoke {''a'', ''b''} [''token'' \<mapsto> JStr ''a'']) = {''b''}
   \<and> (''b'' \<in> snd (oauth_revoke {''a'', ''b''} [''token'' \<mapsto> JStr ''a''])
        \<longleftrightarrow> ''b'' \<in> {''a'', ''b''})
   \<and> validateAuth concat_mac (snd (oauth_revoke {''a'', ''b''} [''token'' \<mapsto> JStr ''a'']))
        5000 None (Some ''b'') =
       validateAuth concat_mac {''a'', ''b''} 5000 None (Some ''b'')"
proof -
  have b: "[''token'' \<mapsto> JStr ''a''] ''token'' = Some (JStr ''a'')" by simp
  have n: "''b'' \<noteq> ''a''" by simp
  have s: "snd (oauth_revoke {''a'', ''b''} [''token'' \<mapsto> JStr ''a'']) = {''b''}"
    by (auto simp: oauth_revoke_def)
  from revoke_frame [of "[''token'' \<mapsto> JStr ''a'']" "''a''" "''b''" "{''a'', ''b''}"
         concat_mac 5000 None] b n s
  show ?thesis by simp
qed

end
